theory Spec2Isabelle
  imports Complex_Main "HOL-Library.Monad_Syntax"
begin

section \<open>Numbers and vectors\<close>

text \<open>
  The program computes with IEEE floating-point numbers (Python floats and numpy arrays
  of \<^verbatim>\<open>f4\<close>). The model computes with the real numbers: rounding, overflow and the
  special values inf and nan are not represented. A division whose divisor is zero has
  no real value: Python raises \<^verbatim>\<open>ZeroDivisionError\<close> on floats and numpy yields inf or
  nan. The model makes every division partial, with \<open>None\<close> for a zero divisor, so that a
  result \<open>Some x\<close> says that no division by zero was performed on the way.
\<close>

definition rdiv :: "real \<Rightarrow> real \<Rightarrow> real option" where
  "rdiv a b = (if b = 0 then None else Some (a / b))"

text \<open>A numpy array of three numbers.\<close>

datatype vec3 = Vec3 (vx: real) (vy: real) (vz: real)


fun vsub :: "vec3 \<Rightarrow> vec3 \<Rightarrow> vec3" where
  "vsub (Vec3 a b c) (Vec3 x y z) = Vec3 (a - x) (b - y) (c - z)"

fun vneg :: "vec3 \<Rightarrow> vec3" where
  "vneg (Vec3 a b c) = Vec3 (- a) (- b) (- c)"

fun smult :: "vec3 \<Rightarrow> real \<Rightarrow> vec3" where
  "smult (Vec3 a b c) k = Vec3 (a * k) (b * k) (c * k)"

text \<open>\<^verbatim>\<open>v / n\<close>: the division of every component by the scalar \<open>n\<close>.\<close>

fun vdiv :: "vec3 \<Rightarrow> real \<Rightarrow> vec3 option" where
  "vdiv (Vec3 a b c) n =
     do { x \<leftarrow> rdiv a n; y \<leftarrow> rdiv b n; z \<leftarrow> rdiv c n; Some (Vec3 x y z) }"

text \<open>\<^verbatim>\<open>np.dot\<close> and \<^verbatim>\<open>np.cross\<close> on vectors of three components.\<close>

fun dot :: "vec3 \<Rightarrow> vec3 \<Rightarrow> real" where
  "dot (Vec3 a b c) (Vec3 x y z) = a * x + b * y + c * z"

fun cross :: "vec3 \<Rightarrow> vec3 \<Rightarrow> vec3" where
  "cross (Vec3 a b c) (Vec3 x y z) = Vec3 (b * z - c * y) (c * x - a * z) (a * y - b * x)"

text \<open>\<^verbatim>\<open>np.linalg.norm\<close>: the Euclidean length.\<close>

fun linalg_norm :: "vec3 \<Rightarrow> real" where
  "linalg_norm (Vec3 a b c) = sqrt (a * a + b * b + c * c)"

text \<open>
  \<^verbatim>\<open>
  def normalize(v):
      n = np.linalg.norm(v)
      return v / n if n != 0 else v
  \<close>
\<close>

definition normalize_vec :: "vec3 \<Rightarrow> vec3 option" where
  "normalize_vec v = (let n = linalg_norm v in if n \<noteq> 0 then vdiv v n else Some v)"

section \<open>Matrices\<close>

text \<open>
  A numpy matrix is a list of rows. The matrices of the program are 4 by 4 and are
  written and read at constant indices inside that range, so the index errors of numpy
  do not arise and are not modelled.
\<close>

type_synonym mat = "real list list"

text \<open>\<^verbatim>\<open>np.eye(n)\<close>: the identity matrix.\<close>

definition np_eye :: "nat \<Rightarrow> mat" where
  "np_eye n = map (\<lambda>i. map (\<lambda>j. if i = j then 1 else 0) [0..<n]) [0..<n]"

text \<open>\<^verbatim>\<open>mat[i, :3] = v\<close> and \<^verbatim>\<open>mat[i, j] = x\<close>.\<close>

fun set_row3 :: "nat \<Rightarrow> vec3 \<Rightarrow> mat \<Rightarrow> mat" where
  "set_row3 i (Vec3 a b c) m = m[i := [a, b, c] @ drop 3 (m ! i)]"

definition set_entry :: "nat \<Rightarrow> nat \<Rightarrow> real \<Rightarrow> mat \<Rightarrow> mat" where
  "set_entry i j x m = m[i := (m ! i)[j := x]]"



section \<open>Projection and view matrices\<close>

text \<open>\<^verbatim>\<open>np.radians\<close>: degrees to radians.\<close>

definition np_radians :: "real \<Rightarrow> real" where
  "np_radians d = d * pi / 180"

text \<open>
  \<^verbatim>\<open>
  def perspective(fovy, aspect, near, far):
      f = 1.0 / np.tan(fovy / 2)
      return np.array([
          [f / aspect, 0, 0, 0],
          [0, f, 0, 0],
          [0, 0, (far + near) / (near - far), (2 * far * near) / (near - far)],
          [0, 0, -1, 0]
      ], dtype='f4')
  \<close>
  The division of \<open>fovy\<close> by the constant 2 cannot fail; the four others are partial.
\<close>

definition perspective :: "real \<Rightarrow> real \<Rightarrow> real \<Rightarrow> real \<Rightarrow> mat option" where
  "perspective fovy aspect near far =
     do {
       f \<leftarrow> rdiv 1 (tan (fovy / 2));
       m00 \<leftarrow> rdiv f aspect;
       m22 \<leftarrow> rdiv (far + near) (near - far);
       m23 \<leftarrow> rdiv (2 * far * near) (near - far);
       Some [[m00, 0, 0, 0],
             [0, f, 0, 0],
             [0, 0, m22, m23],
             [0, 0, - 1, 0]]
     }"

text \<open>
  \<^verbatim>\<open>
  def look_at(eye, target, up):
      f = normalize(target - eye)
      s = normalize(np.cross(f, up))
      u = np.cross(s, f)
      mat = np.eye(4, dtype='f4')
      mat[0, :3] = s
      mat[1, :3] = u
      mat[2, :3] = -f
      mat[0, 3] = -np.dot(s, eye)
      mat[1, 3] = -np.dot(u, eye)
      mat[2, 3] = np.dot(f, eye)
      return mat
  \<close>
\<close>

definition look_at :: "vec3 \<Rightarrow> vec3 \<Rightarrow> vec3 \<Rightarrow> mat option" where
  "look_at eye target up =
     do {
       f \<leftarrow> normalize_vec (vsub target eye);
       s \<leftarrow> normalize_vec (cross f up);
       let u = cross s f;
       let mat = np_eye 4;
       let mat = set_row3 0 s mat;
       let mat = set_row3 1 u mat;
       let mat = set_row3 2 (vneg f) mat;
       let mat = set_entry 0 3 (- dot s eye) mat;
       let mat = set_entry 1 3 (- dot u eye) mat;
       let mat = set_entry 2 3 (dot f eye) mat;
       Some mat
     }"

section \<open>Input events and the camera\<close>

datatype key = K_UP | K_DOWN | K_RETURN | K_ESCAPE | K_w | K_s | K_a | K_d | K_q | K_e
  | K_other nat

text \<open>
  A pygame event: its type and, for the two types the program reads, the key pressed or
  the relative mouse motion \<^verbatim>\<open>event.rel\<close>, a pair of integers in pixels.
\<close>

datatype event = QUIT | KEYDOWN key | MOUSEMOTION int int | OTHER_EVENT

text \<open>The variables of the main loop: \<^verbatim>\<open>cam_pos\<close>, \<^verbatim>\<open>yaw\<close>, \<^verbatim>\<open>pitch\<close>, \<^verbatim>\<open>running\<close>.\<close>

record camera =
  cam_pos :: vec3
  yaw :: real
  pitch :: real
  running :: bool


definition LOOK_SPEED :: real where
  "LOOK_SPEED = 0.003"



text \<open>
  \<^verbatim>\<open>
  cam_pos = np.array([0.0, 1.0, 4.0], dtype='f4')
  yaw, pitch = np.pi, 0.0
  running = True
  \<close>
\<close>

definition initial_camera :: camera where
  "initial_camera = \<lparr>cam_pos = Vec3 0 1 4, yaw = pi, pitch = 0, running = True\<rparr>"

text \<open>\<^verbatim>\<open>np.clip(a, a_min, a_max)\<close>, which numpy defines as \<^verbatim>\<open>minimum(a_max, maximum(a, a_min))\<close>.\<close>

definition np_clip :: "real \<Rightarrow> real \<Rightarrow> real \<Rightarrow> real" where
  "np_clip a a_min a_max = min a_max (max a a_min)"

text \<open>
  The look update, the body of the mouse-motion branch of the event loop:
  \<^verbatim>\<open>
  mx, my = event.rel
  yaw -= mx * LOOK_SPEED
  pitch += my * LOOK_SPEED
  pitch = np.clip(pitch, -np.pi/2, np.pi/2)
  \<close>
\<close>

definition apply_look :: "int \<Rightarrow> int \<Rightarrow> camera \<Rightarrow> camera" where
  "apply_look mx my c =
     (let c = c\<lparr>yaw := yaw c - real_of_int mx * LOOK_SPEED\<rparr>;
          c = c\<lparr>pitch := pitch c + real_of_int my * LOOK_SPEED\<rparr>;
          c = c\<lparr>pitch := np_clip (pitch c) (- pi / 2) (pi / 2)\<rparr>
      in c)"

text \<open>
  \<^verbatim>\<open>
  for event in pygame.event.get():
      if event.type == pygame.QUIT:
          running = False
      if event.type == pygame.KEYDOWN and event.key == pygame.K_ESCAPE:
          running = False
      if event.type == pygame.MOUSEMOTION:
          ...
  \<close>
\<close>

fun handle_event :: "camera \<Rightarrow> event \<Rightarrow> camera" where
  "handle_event c QUIT = c\<lparr>running := False\<rparr>"
| "handle_event c (KEYDOWN k) = (if k = K_ESCAPE then c\<lparr>running := False\<rparr> else c)"
| "handle_event c (MOUSEMOTION mx my) = apply_look mx my c"
| "handle_event c OTHER_EVENT = c"

definition handle_events :: "camera \<Rightarrow> event list \<Rightarrow> camera" where
  "handle_events c evs = foldl handle_event c evs"

text \<open>
  The movement update; \<open>keys\<close> is the result of \<^verbatim>\<open>pygame.key.get_pressed()\<close>.
  \<^verbatim>\<open>
  forward = np.array([np.sin(yaw), 0, np.cos(yaw)], dtype='f4')
  right = normalize(np.cross(forward, [0,1,0]))
  if keys[pygame.K_w]: cam_pos += forward * MOVE_SPEED
  if keys[pygame.K_s]: cam_pos -= forward * MOVE_SPEED
  if keys[pygame.K_a]: cam_pos -= right * MOVE_SPEED
  if keys[pygame.K_d]: cam_pos += right * MOVE_SPEED
  if keys[pygame.K_q]: cam_pos[1] += MOVE_SPEED
  if keys[pygame.K_e]: cam_pos[1] -= MOVE_SPEED
  \<close>
\<close>

definition forward_vec :: "real \<Rightarrow> vec3" where
  "forward_vec yw = Vec3 (sin yw) 0 (cos yw)"

definition right_vec :: "real \<Rightarrow> vec3 option" where
  "right_vec yw = normalize_vec (cross (forward_vec yw) (Vec3 0 1 0))"








section \<open>Files, the mesh loader and the menu\<close>

text \<open>
  The exceptions of the program. \<open>FileNotFoundError\<close> and \<open>OSError\<close> carry their message.
  \<open>WavefrontError\<close> is any exception raised inside the pywavefront parser, with its
  message; the parser is a library outside the program, and its exceptions are kept
  apart from the one \<^verbatim>\<open>load_obj\<close> raises itself. All of them are subclasses of
  \<^verbatim>\<open>Exception\<close>.
\<close>

datatype error = FileNotFoundError string | OSError string | WavefrontError string | IndexError


text \<open>
  What the parser returns: \<^verbatim>\<open>scene.vertices\<close>, and \<^verbatim>\<open>scene.meshes\<close>, a dictionary in
  insertion order from a name to a mesh, of which only the faces are read.
\<close>

record scene =
  vertices :: "vec3 list"
  meshes :: "(string \<times> nat list list) list"

text \<open>
  The world outside the program: \<^verbatim>\<open>os.path.exists\<close>, \<^verbatim>\<open>os.listdir\<close> and the parser
  \<^verbatim>\<open>Wavefront(path, collect_faces=True, parse=True)\<close>, which fails with a message or
  returns a scene.
\<close>

record env =
  path_exists :: "string \<Rightarrow> bool"
  listdir :: "string \<Rightarrow> error + string list"
  wavefront :: "string \<Rightarrow> string + scene"


text \<open>
  \<^verbatim>\<open>str.lower\<close> and \<^verbatim>\<open>str.endswith\<close>. A \<open>char\<close> is a byte: the letters A to Z are
  lowered and every other byte is left as it is.
\<close>

definition lower_char :: "char \<Rightarrow> char" where
  "lower_char c =
     (let n = (of_char c :: nat) in if 65 \<le> n \<and> n \<le> 90 then char_of (n + 32) else c)"

definition lower :: "string \<Rightarrow> string" where
  "lower s = map lower_char s"

definition endswith :: "string \<Rightarrow> string \<Rightarrow> bool" where
  "endswith s suf = (length suf \<le> length s \<and> drop (length s - length suf) s = suf)"

text \<open>\<^verbatim>\<open>os.path.join\<close> of two components, as \<^verbatim>\<open>posixpath\<close> defines it.\<close>

definition path_join :: "string \<Rightarrow> string \<Rightarrow> string" where
  "path_join a b =
     (if b \<noteq> [] \<and> hd b = CHR ''/'' then b
      else if a = [] \<or> last a = CHR ''/'' then a @ b
      else a @ ''/'' @ b)"

text \<open>
  The list access \<^verbatim>\<open>xs[i]\<close> of Python, with \<open>len\<close> the length of the list: an index
  from 0 up to \<open>len - 1\<close> reads from the front, an index from \<open>- len\<close> up to \<open>- 1\<close> reads
  from the back, and any other index raises \<^verbatim>\<open>IndexError\<close>.
\<close>

definition py_index :: "'a list \<Rightarrow> int \<Rightarrow> error + 'a" where
  "py_index xs i =
     (if 0 \<le> i \<and> i < int (length xs) then Inr (xs ! nat i)
      else if i < 0 \<and> - int (length xs) \<le> i then Inr (xs ! nat (int (length xs) + i))
      else Inl IndexError)"

text \<open>The variables of the menu loop.\<close>

record menu_state =
  selected_index :: int
  menu_active :: bool

text \<open>
  One key press in the menu; \<open>n\<close> is \<^verbatim>\<open>len(obj_files)\<close>, which is not zero where the
  loop runs.
  \<^verbatim>\<open>
  if event.key == pygame.K_UP:
      selected_index = (selected_index - 1) % len(obj_files)
  elif event.key == pygame.K_DOWN:
      selected_index = (selected_index + 1) % len(obj_files)
  elif event.key == pygame.K_RETURN:
      menu_active = False
  \<close>
\<close>

definition menu_key :: "nat \<Rightarrow> menu_state \<Rightarrow> key \<Rightarrow> menu_state" where
  "menu_key n st k =
     (if k = K_UP then st\<lparr>selected_index := (selected_index st - 1) mod int n\<rparr>
      else if k = K_DOWN then st\<lparr>selected_index := (selected_index st + 1) mod int n\<rparr>
      else if k = K_RETURN then st\<lparr>menu_active := False\<rparr>
      else st)"

text \<open>
  The events of one frame of the menu. \<open>None\<close> is \<^verbatim>\<open>pygame.quit(); exit()\<close>, which
  leaves the program at once.
\<close>

fun menu_events :: "nat \<Rightarrow> menu_state \<Rightarrow> event list \<Rightarrow> menu_state option" where
  "menu_events n st [] = Some st"
| "menu_events n st (QUIT # evs) = None"
| "menu_events n st (KEYDOWN k # evs) = menu_events n (menu_key n st k) evs"
| "menu_events n st (ev # evs) = menu_events n st evs"

text \<open>
  The menu loop runs one frame for each list of events the window system delivers. It
  ends with the index selected (\<open>Chosen\<close>), with the exit of the program (\<open>Quit_Menu\<close>),
  or it is still active when the given frames are used up (\<open>Menu_Open\<close>).
\<close>

datatype loop_end = Chosen int | Quit_Menu | Menu_Open

fun menu_loop :: "nat \<Rightarrow> menu_state \<Rightarrow> event list list \<Rightarrow> loop_end" where
  "menu_loop n st [] = (if menu_active st then Menu_Open else Chosen (selected_index st))"
| "menu_loop n st (evs # frames) =
     (if menu_active st
      then (case menu_events n st evs of
              None \<Rightarrow> Quit_Menu
            | Some st' \<Rightarrow> menu_loop n st' frames)
      else Chosen (selected_index st))"

text \<open>
  \<^verbatim>\<open>
  def obj_menu(screen, clock, obj_folder="OBJ_files"):
      obj_files = [f for f in os.listdir(obj_folder) if f.lower().endswith(".obj")]
      if not obj_files:
          raise FileNotFoundError(f"No OBJ files found in {obj_folder}")
      selected_index = 0
      menu_active = True
      while menu_active:
          ...
      return os.path.join(obj_folder, obj_files[selected_index])
  \<close>
  The drawing of the menu has no effect on its result and is left out.
\<close>

datatype menu_result = Selected string | Menu_Raised error | Menu_Exit | Menu_Pending

definition obj_files_of :: "string list \<Rightarrow> string list" where
  "obj_files_of names = filter (\<lambda>f. endswith (lower f) ''.obj'') names"

definition obj_menu :: "env \<Rightarrow> string \<Rightarrow> event list list \<Rightarrow> menu_result" where
  "obj_menu e obj_folder frames =
     (case listdir e obj_folder of
        Inl err \<Rightarrow> Menu_Raised err
      | Inr names \<Rightarrow>
          (let obj_files = obj_files_of names in
           if obj_files = []
           then Menu_Raised (FileNotFoundError (''No OBJ files found in '' @ obj_folder))
           else case menu_loop (length obj_files)
                       \<lparr>selected_index = 0, menu_active = True\<rparr> frames of
                  Quit_Menu \<Rightarrow> Menu_Exit
                | Menu_Open \<Rightarrow> Menu_Pending
                | Chosen i \<Rightarrow>
                    (case py_index obj_files i of
                       Inl err \<Rightarrow> Menu_Raised err
                     | Inr f \<Rightarrow> Selected (path_join obj_folder f))))"

section \<open>The main program\<close>






text \<open>
  The clamp of the specification, in its own words: a value below the lower bound
  becomes the lower bound, a value above the upper bound becomes the upper bound, and
  any other value is kept.
\<close>

definition spec_clamp :: "real \<Rightarrow> real \<Rightarrow> real \<Rightarrow> real" where
  "spec_clamp x lo hi = (if x < lo then lo else if hi < x then hi else x)"

section \<open>Vector arithmetic\<close>



lemma vdiv_nonzero: "n \<noteq> 0 \<Longrightarrow> vdiv v n = Some (smult v (1 / n))"
  by (cases v) (simp add: rdiv_def)

lemma normalize_nonzero:
  "linalg_norm v \<noteq> 0 \<Longrightarrow> normalize_vec v = Some (smult v (1 / linalg_norm v))"
  by (simp add: normalize_vec_def vdiv_nonzero)

lemma normalize_zero: "linalg_norm v = 0 \<Longrightarrow> normalize_vec v = Some v"
  by (simp add: normalize_vec_def)

lemma normalize_total: "\<exists>w. normalize_vec v = Some w"
  by (cases "linalg_norm v = 0") (simp_all add: normalize_zero normalize_nonzero)


section \<open>Matrix arithmetic\<close>

lemma np_eye_4: "np_eye 4 = [[1,0,0,0],[0,1,0,0],[0,0,1,0],[0,0,0,1]]"
  by (simp add: np_eye_def upt_rec numeral_eq_Suc)

lemma set_row3_rows:
  "set_row3 0 (Vec3 a b c) [[p0, p1, p2, p3], r1, r2, r3] = [[a, b, c, p3], r1, r2, r3]"
  "set_row3 1 (Vec3 a b c) [r0, [p0, p1, p2, p3], r2, r3] = [r0, [a, b, c, p3], r2, r3]"
  "set_row3 2 (Vec3 a b c) [r0, r1, [p0, p1, p2, p3], r3] = [r0, r1, [a, b, c, p3], r3]"
  by (simp_all add: numeral_eq_Suc)

lemma set_entry_col3:
  "set_entry 0 3 x [[p0, p1, p2, p3], r1, r2, r3] = [[p0, p1, p2, x], r1, r2, r3]"
  "set_entry 1 3 x [r0, [p0, p1, p2, p3], r2, r3] = [r0, [p0, p1, p2, x], r2, r3]"
  "set_entry 2 3 x [r0, r1, [p0, p1, p2, p3], r3] = [r0, r1, [p0, p1, p2, x], r3]"
  by (simp_all add: set_entry_def numeral_eq_Suc)





section \<open>The projection and view matrices\<close>

lemma perspective_value:
  assumes "0 < fovy" "fovy < pi" "0 < aspect" "0 < near" "near < far"
  shows "perspective fovy aspect near far =
    Some [[1 / tan (fovy / 2) / aspect, 0, 0, 0],
          [0, 1 / tan (fovy / 2), 0, 0],
          [0, 0, (far + near) / (near - far), (2 * far * near) / (near - far)],
          [0, 0, - 1, 0]]"
proof -
  have "0 < tan (fovy / 2)"
    using assms by (simp add: tan_gt_zero)
  then show ?thesis using assms by (simp add: perspective_def rdiv_def)
qed

lemma tan_half_60: "tan (np_radians 60 / 2) = 1 / sqrt 3"
proof -
  have "np_radians 60 / 2 = pi / 6" by (simp add: np_radians_def)
  then show ?thesis by (simp only: tan_30)
qed

lemma tan_30_deg: "tan (np_radians 30) = 1 / sqrt 3"
proof -
  have "np_radians 30 = pi / 6" by (simp add: np_radians_def)
  then show ?thesis by (simp only: tan_30)
qed

lemma perspective_60: "perspective (np_radians 60) (16 / 9) 0.1 100 = 
    Some [[9 * sqrt 3 / 16, 0, 0, 0],
          [0, sqrt 3, 0, 0],
          [0, 0, - (1001 / 999), - (200 / 999)],
          [0, 0, - 1, 0]]"
  by (simp add: perspective_def rdiv_def tan_half_60)

lemma sqrt3_bounds: "1.7315 < sqrt 3 \<and> sqrt 3 < 1.7325"
proof
  have "(1.7315::real)\<^sup>2 < 3" by (simp add: power2_eq_square)
  then show "1.7315 < sqrt 3" by (rule real_less_rsqrt)
  have "3 < (1.7325::real)\<^sup>2" by (simp add: power2_eq_square)
  then show "sqrt 3 < 1.7325" by (intro real_less_lsqrt) simp_all
qed

lemma look_at_value:
  assumes "normalize_vec (vsub target eye) = Some (Vec3 f1 f2 f3)"
    and "normalize_vec (cross (Vec3 f1 f2 f3) up) = Some (Vec3 s1 s2 s3)"
    and "cross (Vec3 s1 s2 s3) (Vec3 f1 f2 f3) = Vec3 u1 u2 u3"
  shows "look_at eye target up =
       Some [[s1, s2, s3, - dot (Vec3 s1 s2 s3) eye],
             [u1, u2, u3, - dot (Vec3 u1 u2 u3) eye],
             [- f1, - f2, - f3, dot (Vec3 f1 f2 f3) eye],
             [0, 0, 0, 1]]"
  by (simp only: look_at_def assms bind.bind_lunit Let_def np_eye_4 vneg.simps
      set_row3_rows set_entry_col3)

lemma look_at_rows:
  "\<exists>f s. normalize_vec (vsub target eye) = Some f \<and> normalize_vec (cross f up) = Some s \<and>
     look_at eye target up =
       Some [[vx s, vy s, vz s, - dot s eye],
             [vx (cross s f), vy (cross s f), vz (cross s f), - dot (cross s f) eye],
             [- vx f, - vy f, - vz f, dot f eye],
             [0, 0, 0, 1]]"
proof -
  obtain f where f: "normalize_vec (vsub target eye) = Some f"
    using normalize_total by blast
  obtain s where s: "normalize_vec (cross f up) = Some s"
    using normalize_total by blast
  obtain f1 f2 f3 where fc: "f = Vec3 f1 f2 f3" by (cases f)
  obtain s1 s2 s3 where sc: "s = Vec3 s1 s2 s3" by (cases s)
  obtain u1 u2 u3 where uc: "cross s f = Vec3 u1 u2 u3" by (cases "cross s f")
  have "look_at eye target up =
       Some [[s1, s2, s3, - dot s eye], [u1, u2, u3, - dot (cross s f) eye],
             [- f1, - f2, - f3, dot f eye], [0, 0, 0, 1]]"
    using look_at_value [of target eye f1 f2 f3 up s1 s2 s3 u1 u2 u3] f s uc
    by (simp only: fc sc)
  then show ?thesis
    using f s uc by (simp add: fc sc del: cross.simps dot.simps)
qed



section \<open>The look and movement updates\<close>

lemma np_clip_bounds: "lo \<le> hi \<Longrightarrow> lo \<le> np_clip a lo hi \<and> np_clip a lo hi \<le> hi"
  by (simp add: np_clip_def)

lemma np_clip_spec_clamp: "lo \<le> hi \<Longrightarrow> np_clip a lo hi = spec_clamp a lo hi"
  by (simp add: np_clip_def spec_clamp_def)

lemma half_pi_order: "- pi / 2 \<le> pi / 2"
  using pi_ge_zero by simp

lemma pitch_apply_look:
  "pitch (apply_look mx my c) = np_clip (pitch c + real_of_int my * LOOK_SPEED) (- pi / 2) (pi / 2)"
  by (simp add: apply_look_def)

lemma pitch_apply_look_bounds:
  "- pi / 2 \<le> pitch (apply_look mx my c) \<and> pitch (apply_look mx my c) \<le> pi / 2"
  unfolding pitch_apply_look by (rule np_clip_bounds [OF half_pi_order])

lemma pitch_handle_event_bounds:
  assumes "- pi / 2 \<le> pitch c \<and> pitch c \<le> pi / 2"
  shows "- pi / 2 \<le> pitch (handle_event c ev) \<and> pitch (handle_event c ev) \<le> pi / 2"
proof (cases ev)
  case (MOUSEMOTION mx my)
  then show ?thesis using pitch_apply_look_bounds by simp
qed (use assms in simp_all)

lemma pitch_handle_events_bounds:
  "- pi / 2 \<le> pitch c \<and> pitch c \<le> pi / 2 \<Longrightarrow>
   - pi / 2 \<le> pitch (handle_events c evs) \<and> pitch (handle_events c evs) \<le> pi / 2"
  unfolding handle_events_def
proof (induction evs arbitrary: c)
  case Nil
  then show ?case by simp
next
  case (Cons ev evs)
  show ?case
    using Cons.IH [OF pitch_handle_event_bounds [OF Cons.prems]] by simp
qed

lemma pitch_big_step: "pitch (apply_look 0 1000 initial_camera) = pi / 2"
proof -
  have "pi / 2 < 3" using pi_half_less_two by linarith
  moreover have "- pi / 2 < 3" using pi_gt_zero by linarith
  ultimately show ?thesis
    by (simp add: apply_look_def initial_camera_def LOOK_SPEED_def np_clip_def)
qed

lemma forward_norm: "linalg_norm (forward_vec y) = 1"
  by (simp add: forward_vec_def flip: power2_eq_square)

lemma cross_forward_up: "cross (forward_vec y) (Vec3 0 1 0) = Vec3 (- cos y) 0 (sin y)"
  by (simp add: forward_vec_def)

lemma cross_forward_up_norm: "linalg_norm (cross (forward_vec y) (Vec3 0 1 0)) = 1"
proof -
  have "(cos y)\<^sup>2 + (sin y)\<^sup>2 = 1" by (simp add: add.commute)
  then show ?thesis
  unfolding cross_forward_up by (simp flip: power2_eq_square)
qed

lemma right_vec_value: "right_vec y = Some (Vec3 (- cos y) 0 (sin y))"
  unfolding right_vec_def
  using normalize_nonzero [of "cross (forward_vec y) (Vec3 0 1 0)"]
  by (simp add: cross_forward_up_norm) (simp add: cross_forward_up)



section \<open>The claims about the vectors and the matrices\<close>



text \<open>
  C2. For a field of view strictly between 0 and \<open>\<pi>\<close>, a positive aspect ratio and
  \<open>0 < near < far\<close>, \<open>perspective\<close> returns the matrix with \<open>f = 1 / tan (fovy / 2)\<close>,
  entry [0][0] \<open>f / aspect\<close>, entry [1][1] \<open>f\<close>, entry [2][2] \<open>(far + near) / (near - far)\<close>,
  entry [2][3] \<open>2 * far * near / (near - far)\<close>, bottom row \<open>[0, 0, -1, 0]\<close> and zeros
  elsewhere. For 60 degrees, aspect 16/9, near 0.1 and far 100, entry [1][1] is
  \<open>1 / tan\<close> of 30 degrees, within 0.001 of 1.732, and entry [0][0] is that divided by the
  aspect, within 0.001 of 0.974.
\<close>

theorem perspective_entries:
  assumes "0 < fovy" "fovy < pi" "0 < aspect" "0 < near" "near < far"
  shows "(\<exists>f. f = 1 / tan (fovy / 2) \<and>
       perspective fovy aspect near far =
         Some [[f / aspect, 0, 0, 0],
               [0, f, 0, 0],
               [0, 0, (far + near) / (near - far), (2 * far * near) / (near - far)],
               [0, 0, - 1, 0]]) \<and>
    (\<exists>m. perspective (np_radians 60) (16 / 9) 0.1 100 = Some m \<and>
       m ! 1 ! 1 = 1 / tan (np_radians 30) \<and> \<bar>m ! 1 ! 1 - 1.732\<bar> < 0.001 \<and>
       m ! 0 ! 0 = m ! 1 ! 1 / (16 / 9) \<and> \<bar>m ! 0 ! 0 - 0.974\<bar> < 0.001)"
proof
  show "\<exists>f. f = 1 / tan (fovy / 2) \<and>
       perspective fovy aspect near far =
         Some [[f / aspect, 0, 0, 0],
               [0, f, 0, 0],
               [0, 0, (far + near) / (near - far), (2 * far * near) / (near - far)],
               [0, 0, - 1, 0]]"
    using perspective_value [OF assms] by simp
next
  let ?m = "[[9 * sqrt 3 / 16, 0, 0, 0], [0, sqrt 3, 0, 0],
          [0, 0, - (1001 / 999), - (200 / 999)], [0, 0, - 1, 0 :: real]]"
  have "?m ! 1 ! 1 = 1 / tan (np_radians 30)"
    by (simp add: tan_30_deg)
  moreover have "\<bar>?m ! 1 ! 1 - 1.732\<bar> < 0.001"
  proof -
    have "3463 / 2000 < sqrt 3 \<and> sqrt 3 < 693 / 400" using sqrt3_bounds by simp
    then have "\<bar>sqrt 3 - 433 / 250\<bar> < 1 / 1000" by arith
    then show ?thesis by simp
  qed
  moreover have "?m ! 0 ! 0 = ?m ! 1 ! 1 / (16 / 9)"
    by simp
  moreover have "\<bar>?m ! 0 ! 0 - 0.974\<bar> < 0.001"
  proof -
    have "3463 / 2000 < sqrt 3 \<and> sqrt 3 < 693 / 400" using sqrt3_bounds by simp
    then have "\<bar>9 * sqrt 3 / 16 - 487 / 500\<bar> < 1 / 1000" by arith
    then show ?thesis by simp
  qed
  ultimately show "\<exists>m. perspective (np_radians 60) (16 / 9) 0.1 100 = Some m \<and>
       m ! 1 ! 1 = 1 / tan (np_radians 30) \<and> \<bar>m ! 1 ! 1 - 1.732\<bar> < 0.001 \<and>
       m ! 0 ! 0 = m ! 1 ! 1 / (16 / 9) \<and> \<bar>m ! 0 ! 0 - 0.974\<bar> < 0.001"
    using perspective_60 by blast
qed

theorem perspective_entries_witness:
  "(0::real) < pi / 2 \<and> pi / 2 < pi \<and> (0::real) < 2 \<and> (0::real) < 1 \<and> (1::real) < 3 \<and>
   perspective (pi / 2) 2 1 3 = Some [[1 / 2, 0, 0, 0], [0, 1, 0, 0], [0, 0, - 2, - 3], [0, 0, - 1, 0]]"
  using perspective_entries [of "pi / 2" 2 1 3] by (simp add: tan_45)

text \<open>
  C3. For every eye, target and up vector, and so for those with the eye apart from the
  target and the up vector not parallel to the forward direction, \<open>look_at\<close> returns the
  matrix built from \<open>f = normalize (target - eye)\<close>, \<open>s = normalize (cross f up)\<close> and
  \<open>u = cross s f\<close>: row 0 is \<open>s\<close> and \<open>- dot s eye\<close>, row 1 is \<open>u\<close> and \<open>- dot u eye\<close>, row 2
  is \<open>- f\<close> and \<open>dot f eye\<close>, row 3 is \<open>[0, 0, 0, 1]\<close>. For the eye at the origin, the
  target \<open>(0, 0, -1)\<close> and the up vector \<open>(0, 1, 0)\<close> it is the identity matrix: the
  identity rotation with no translation.
\<close>

theorem look_at_matrix:
  "(\<exists>f s u. normalize_vec (vsub target eye) = Some f \<and>
      normalize_vec (cross f up) = Some s \<and> u = cross s f \<and>
      look_at eye target up =
        Some [[vx s, vy s, vz s, - dot s eye],
              [vx u, vy u, vz u, - dot u eye],
              [- vx f, - vy f, - vz f, dot f eye],
              [0, 0, 0, 1]]) \<and>
   look_at (Vec3 0 0 0) (Vec3 0 0 (- 1)) (Vec3 0 1 0) =
     Some [[1, 0, 0, 0], [0, 1, 0, 0], [0, 0, 1, 0], [0, 0, 0, 1]]"
proof
  show "\<exists>f s u. normalize_vec (vsub target eye) = Some f \<and>
      normalize_vec (cross f up) = Some s \<and> u = cross s f \<and>
      look_at eye target up =
        Some [[vx s, vy s, vz s, - dot s eye],
              [vx u, vy u, vz u, - dot u eye],
              [- vx f, - vy f, - vz f, dot f eye],
              [0, 0, 0, 1]]"
    using look_at_rows [of target eye up] by blast
next
  have f: "normalize_vec (vsub (Vec3 0 0 (- 1)) (Vec3 0 0 0)) = Some (Vec3 0 0 (- 1))"
    by (simp add: normalize_vec_def rdiv_def)
  have s: "normalize_vec (cross (Vec3 0 0 (- 1)) (Vec3 0 1 0)) = Some (Vec3 1 0 0)"
    by (simp add: normalize_vec_def rdiv_def)
  have u: "cross (Vec3 1 0 0) (Vec3 0 0 (- 1)) = Vec3 0 1 0"
    by simp
  show "look_at (Vec3 0 0 0) (Vec3 0 0 (- 1)) (Vec3 0 1 0) =
     Some [[1, 0, 0, 0], [0, 1, 0, 0], [0, 0, 1, 0], [0, 0, 0, 1]]"
    using look_at_value [OF f s u] by simp
qed


section \<open>The claims about the camera\<close>

text \<open>
  C4, as amended. After every look update the pitch lies in the closed range from
  \<open>- \<pi> / 2\<close> to \<open>\<pi> / 2\<close>, from any camera state; it stays there under every further
  sequence of events, and under every sequence of events from the initial camera. Both
  bounds belong to the range: the update clips to them and can reach them.
\<close>

theorem pitch_closed_range:
  "(- pi / 2 \<le> pitch (apply_look mx my c) \<and> pitch (apply_look mx my c) \<le> pi / 2) \<and>
   (- pi / 2 \<le> pitch (handle_events (apply_look mx my c) evs) \<and>
      pitch (handle_events (apply_look mx my c) evs) \<le> pi / 2) \<and>
   (- pi / 2 \<le> pitch (handle_events initial_camera evs) \<and>
      pitch (handle_events initial_camera evs) \<le> pi / 2)"
proof -
  have "- pi / 2 \<le> pitch initial_camera \<and> pitch initial_camera \<le> pi / 2"
    using pi_ge_zero by (simp add: initial_camera_def)
  then show ?thesis
    using pitch_apply_look_bounds pitch_handle_events_bounds by blast
qed

text \<open>
  The claim as it is written asks for the open range. One mouse motion of 1000 pixels
  downwards from the initial camera puts the pitch on the bound \<open>\<pi> / 2\<close> itself.
\<close>

theorem pitch_open_range_counterexample:
  "\<not> (- pi / 2 < pitch (apply_look 0 1000 initial_camera) \<and>
      pitch (apply_look 0 1000 initial_camera) < pi / 2)"
  by (simp add: pitch_big_step)

text \<open>
  C5. One look update with the mouse motion \<open>(mx, my)\<close> subtracts \<open>mx * LOOK_SPEED\<close> from
  the yaw, replaces the pitch by the clamp of \<open>pitch + my * LOOK_SPEED\<close> to the bounds
  \<open>- \<pi> / 2\<close> and \<open>\<pi> / 2\<close>, and changes nothing else: the position and the running flag are
  as before. It is what the event loop does for a mouse-motion event.
\<close>

theorem apply_look_update:
  "apply_look mx my c =
     c\<lparr>yaw := yaw c - real_of_int mx * LOOK_SPEED,
       pitch := spec_clamp (pitch c + real_of_int my * LOOK_SPEED) (- pi / 2) (pi / 2)\<rparr> \<and>
   cam_pos (apply_look mx my c) = cam_pos c \<and>
   running (apply_look mx my c) = running c \<and>
   handle_event c (MOUSEMOTION mx my) = apply_look mx my c \<and>
   LOOK_SPEED = 3 / 1000"
proof -
  have "apply_look mx my c =
     c\<lparr>yaw := yaw c - real_of_int mx * LOOK_SPEED,
       pitch := np_clip (pitch c + real_of_int my * LOOK_SPEED) (- pi / 2) (pi / 2)\<rparr>"
    by (simp add: apply_look_def)
  then have "apply_look mx my c =
     c\<lparr>yaw := yaw c - real_of_int mx * LOOK_SPEED,
       pitch := spec_clamp (pitch c + real_of_int my * LOOK_SPEED) (- pi / 2) (pi / 2)\<rparr>"
    by (simp only: np_clip_spec_clamp [OF half_pi_order])
  moreover have "cam_pos (apply_look mx my c) = cam_pos c"
    and "running (apply_look mx my c) = running c"
    by (simp_all add: apply_look_def)
  ultimately show ?thesis
    by (simp add: LOOK_SPEED_def)
qed



text \<open>
  C9. For every yaw the forward vector has length 1 and y component 0. Its cross product
  with \<open>(0, 1, 0)\<close> has length 1 and is not the zero vector, so \<open>normalize\<close> takes its
  dividing branch for the right vector, and the right vector has length 1 and
  y component 0.
\<close>

theorem right_vector_unit:
  "linalg_norm (forward_vec y) = 1 \<and> vy (forward_vec y) = 0 \<and>
   linalg_norm (cross (forward_vec y) (Vec3 0 1 0)) = 1 \<and>
   cross (forward_vec y) (Vec3 0 1 0) \<noteq> Vec3 0 0 0 \<and>
   linalg_norm (cross (forward_vec y) (Vec3 0 1 0)) \<noteq> 0 \<and>
   (\<exists>r. right_vec y = Some r \<and>
        r = smult (cross (forward_vec y) (Vec3 0 1 0))
              (1 / linalg_norm (cross (forward_vec y) (Vec3 0 1 0))) \<and>
        linalg_norm r = 1 \<and> vy r = 0)"
proof -
  have nz: "cross (forward_vec y) (Vec3 0 1 0) \<noteq> Vec3 0 0 0"
  proof
    assume "cross (forward_vec y) (Vec3 0 1 0) = Vec3 0 0 0"
    then have "linalg_norm (cross (forward_vec y) (Vec3 0 1 0)) = 0" by simp
    then show False by (simp add: cross_forward_up_norm)
  qed
  have r: "linalg_norm (Vec3 (- cos y) 0 (sin y)) = 1"
    using cross_forward_up_norm [of y] by (simp only: cross_forward_up)
  show ?thesis
    using nz r
    by (simp add: forward_norm cross_forward_up_norm right_vec_value)
      (simp add: forward_vec_def)
qed

section \<open>The menu and the loader\<close>

lemma menu_key_in_range:
  assumes "0 < n" "0 \<le> selected_index st \<and> selected_index st < int n"
  shows "0 \<le> selected_index (menu_key n st k) \<and> selected_index (menu_key n st k) < int n"
  using assms by (simp add: menu_key_def)

lemma foldl_menu_key_in_range:
  assumes "0 < n" "0 \<le> selected_index st \<and> selected_index st < int n"
  shows "0 \<le> selected_index (foldl (menu_key n) st ks) \<and>
         selected_index (foldl (menu_key n) st ks) < int n"
  using assms(2)
proof (induction ks arbitrary: st)
  case Nil
  then show ?case by simp
next
  case (Cons k ks)
  show ?case
    using Cons.IH [OF menu_key_in_range [OF assms(1) Cons.prems]] by simp
qed

lemma menu_events_in_range:
  assumes "0 < n"
  shows "0 \<le> selected_index st \<and> selected_index st < int n \<Longrightarrow>
     menu_events n st evs = Some st' \<Longrightarrow>
     0 \<le> selected_index st' \<and> selected_index st' < int n"
proof (induction n st evs rule: menu_events.induct)
  case (3 n st k evs)
  then show ?case
    using menu_key_in_range [of n st k] assms by simp
qed simp_all

lemma menu_loop_in_range:
  assumes "0 < n"
  shows "0 \<le> selected_index st \<and> selected_index st < int n \<Longrightarrow>
     menu_loop n st frames = Chosen i \<Longrightarrow> 0 \<le> i \<and> i < int n"
proof (induction frames arbitrary: st)
  case Nil
  then show ?case by (simp split: if_splits)
next
  case (Cons evs frames)
  show ?case
  proof (cases "menu_active st")
    case False
    then show ?thesis using Cons.prems by simp
  next
    case True
    then obtain st' where st': "menu_events n st evs = Some st'"
      and loop: "menu_loop n st' frames = Chosen i"
      using Cons.prems(2) by (auto split: option.splits)
    from menu_events_in_range [OF assms Cons.prems(1) st'] loop
    show ?thesis by (rule Cons.IH)
  qed
qed

lemma menu_loop_initial:
  assumes "fs \<noteq> []"
    and "menu_loop (length fs) \<lparr>selected_index = 0, menu_active = True\<rparr> frames = Chosen i"
  shows "0 \<le> i \<and> i < int (length fs)"
proof -
  have n: "0 < length fs" using assms(1) by simp
  have start: "0 \<le> selected_index \<lparr>selected_index = 0, menu_active = True\<rparr> \<and>
      selected_index \<lparr>selected_index = 0, menu_active = True\<rparr> < int (length fs)"
    using n by simp
  show ?thesis
    by (rule menu_loop_in_range [OF n start assms(2)])
qed

lemma py_index_in_range:
  "0 \<le> i \<Longrightarrow> i < int (length xs) \<Longrightarrow> py_index xs i = Inr (xs ! nat i)"
  by (simp add: py_index_def)

lemma obj_menu_selected:
  assumes "listdir e folder = Inr names" "obj_menu e folder frames = Selected p"
  shows "\<exists>i < length (obj_files_of names). p = path_join folder (obj_files_of names ! i)"
proof -
  let ?fs = "obj_files_of names"
  have ne: "?fs \<noteq> []"
    using assms by (auto simp: obj_menu_def Let_def)
  then obtain i where loop: "menu_loop (length ?fs) \<lparr>selected_index = 0, menu_active = True\<rparr> frames = Chosen i"
    using assms by (auto simp: obj_menu_def Let_def split: loop_end.splits)
  have "0 \<le> i \<and> i < int (length ?fs)"
    by (rule menu_loop_initial [OF ne loop])
  then have "py_index ?fs i = Inr (?fs ! nat i)" "nat i < length ?fs"
    by (simp add: py_index_in_range, linarith)
  then show ?thesis
    using assms ne loop by (auto simp: obj_menu_def Let_def)
qed

lemma obj_menu_raises:
  assumes "listdir e folder = Inr names" "obj_files_of names = []"
  shows "obj_menu e folder frames = Menu_Raised (FileNotFoundError (''No OBJ files found in '' @ folder))"
  using assms by (simp add: obj_menu_def)

lemma obj_menu_no_index_error:
  assumes "listdir e folder = Inr names"
  shows "obj_menu e folder frames \<noteq> Menu_Raised IndexError"
proof (cases "obj_files_of names = []")
  case True
  then show ?thesis using assms by (simp add: obj_menu_def)
next
  case False
  let ?fs = "obj_files_of names"
  show ?thesis
  proof (cases "menu_loop (length ?fs) \<lparr>selected_index = 0, menu_active = True\<rparr> frames")
    case (Chosen i)
    have "0 \<le> i \<and> i < int (length ?fs)"
      by (rule menu_loop_initial [OF False Chosen])
    then have "py_index ?fs i = Inr (?fs ! nat i)"
      by (simp add: py_index_in_range)
    then show ?thesis using assms False Chosen by (simp add: obj_menu_def)
  qed (use assms False in \<open>simp_all add: obj_menu_def\<close>)
qed

lemma lower_examples:
  "lower ''a.obj'' = ''a.obj''" "lower ''B.OBJ'' = ''b.obj''" "lower ''notes.txt'' = ''notes.txt''"
  by code_simp+

lemma obj_files_example:
  "obj_files_of [''a.obj'', ''notes.txt'', ''B.OBJ''] = [''a.obj'', ''B.OBJ'']"
  "obj_files_of [''notes.txt''] = []"
  by (simp_all add: obj_files_of_def lower_examples endswith_def)



section \<open>The claims about the menu and the loader\<close>



text \<open>
  C10. Let the folder list the names \<open>names\<close>, and let \<open>n\<close> be the number of those that
  end in \<open>.obj\<close> when lowered. With \<open>n\<close> not zero, the selected index is between 0 and
  \<open>n - 1\<close> after every sequence of key presses from the start of the menu; a key press
  keeps an index of that range inside it; and the index the loop ends with is in that
  range. So a path returned by the menu is the folder joined with one of the listed names
  that end in \<open>.obj\<close>, and the menu never fails with an index error. With \<open>n\<close> zero the
  menu raises \<open>FileNotFoundError\<close> and returns nothing.
\<close>

theorem menu_selection_in_range:
  assumes "listdir e folder = Inr names"
  shows "(obj_files_of names \<noteq> [] \<longrightarrow>
       (\<forall>ks. 0 \<le> selected_index (foldl (menu_key (length (obj_files_of names)))
                   \<lparr>selected_index = 0, menu_active = True\<rparr> ks) \<and>
             selected_index (foldl (menu_key (length (obj_files_of names)))
                   \<lparr>selected_index = 0, menu_active = True\<rparr> ks)
               \<le> int (length (obj_files_of names)) - 1)) \<and>
     (\<forall>p. obj_menu e folder frames = Selected p \<longrightarrow>
        (\<exists>f. f \<in> set names \<and> endswith (lower f) ''.obj'' \<and> p = path_join folder f)) \<and>
     (\<forall>st k. 0 \<le> selected_index st \<and> selected_index st < int (length (obj_files_of names)) \<longrightarrow>
        0 \<le> selected_index (menu_key (length (obj_files_of names)) st k) \<and>
        selected_index (menu_key (length (obj_files_of names)) st k)
          < int (length (obj_files_of names))) \<and>
     (\<forall>i. obj_files_of names \<noteq> [] \<and>
          menu_loop (length (obj_files_of names))
            \<lparr>selected_index = 0, menu_active = True\<rparr> frames = Chosen i \<longrightarrow>
          0 \<le> i \<and> i \<le> int (length (obj_files_of names)) - 1) \<and>
     obj_menu e folder frames \<noteq> Menu_Raised IndexError \<and>
     (obj_files_of names = [] \<longrightarrow>
        obj_menu e folder frames =
          Menu_Raised (FileNotFoundError (''No OBJ files found in '' @ folder)))"
proof (intro conjI impI allI)
  fix ks
  assume ne: "obj_files_of names \<noteq> []"
  let ?n = "length (obj_files_of names)"
  have "0 \<le> selected_index (foldl (menu_key ?n) \<lparr>selected_index = 0, menu_active = True\<rparr> ks) \<and>
        selected_index (foldl (menu_key ?n) \<lparr>selected_index = 0, menu_active = True\<rparr> ks) < int ?n"
    using ne by (intro foldl_menu_key_in_range) simp_all
  then show "0 \<le> selected_index (foldl (menu_key ?n) \<lparr>selected_index = 0, menu_active = True\<rparr> ks)"
    and "selected_index (foldl (menu_key ?n) \<lparr>selected_index = 0, menu_active = True\<rparr> ks) \<le> int ?n - 1"
    by simp_all
next
  fix p
  assume "obj_menu e folder frames = Selected p"
  from obj_menu_selected [OF assms this]
  obtain i where i: "i < length (obj_files_of names)"
    and p: "p = path_join folder (obj_files_of names ! i)"
    by blast
  have "obj_files_of names ! i \<in> set (obj_files_of names)"
    using i by simp
  then have "obj_files_of names ! i \<in> set names \<and> endswith (lower (obj_files_of names ! i)) ''.obj''"
    by (simp add: obj_files_of_def)
  with p show "\<exists>f. f \<in> set names \<and> endswith (lower f) ''.obj'' \<and> p = path_join folder f"
    by blast
next
  fix st :: menu_state and k :: key
  assume r: "0 \<le> selected_index st \<and> selected_index st < int (length (obj_files_of names))"
  then have "0 < int (length (obj_files_of names))" by linarith
  then have "0 < length (obj_files_of names)" by simp
  from menu_key_in_range [OF this r, of k]
  show "0 \<le> selected_index (menu_key (length (obj_files_of names)) st k)"
    and "selected_index (menu_key (length (obj_files_of names)) st k)
          < int (length (obj_files_of names))"
    by simp_all
next
  fix i
  assume "obj_files_of names \<noteq> [] \<and>
          menu_loop (length (obj_files_of names))
            \<lparr>selected_index = 0, menu_active = True\<rparr> frames = Chosen i"
  then have "0 \<le> i \<and> i < int (length (obj_files_of names))"
    using menu_loop_initial by blast
  then show "0 \<le> i" and "i \<le> int (length (obj_files_of names)) - 1"
    by simp_all
next
  show "obj_menu e folder frames \<noteq> Menu_Raised IndexError"
    by (rule obj_menu_no_index_error [OF assms])
next
  assume "obj_files_of names = []"
  with assms show "obj_menu e folder frames =
          Menu_Raised (FileNotFoundError (''No OBJ files found in '' @ folder))"
    by (rule obj_menu_raises)
qed

theorem menu_selection_in_range_witness:
  "listdir \<lparr>path_exists = (\<lambda>p. True), listdir = (\<lambda>d. Inr [''a.obj'', ''notes.txt'', ''B.OBJ'']),
       wavefront = (\<lambda>p. Inl [])\<rparr> ''OBJ_files'' = Inr [''a.obj'', ''notes.txt'', ''B.OBJ''] \<and>
   obj_files_of [''a.obj'', ''notes.txt'', ''B.OBJ''] \<noteq> [] \<and>
   selected_index (foldl (menu_key 2) \<lparr>selected_index = 0, menu_active = True\<rparr> [K_UP]) = 1 \<and>
   menu_loop 2 \<lparr>selected_index = 0, menu_active = True\<rparr> [[KEYDOWN K_UP], [KEYDOWN K_RETURN]] = Chosen 1 \<and>
   obj_menu \<lparr>path_exists = (\<lambda>p. True), listdir = (\<lambda>d. Inr [''a.obj'', ''notes.txt'', ''B.OBJ'']),
       wavefront = (\<lambda>p. Inl [])\<rparr> ''OBJ_files'' [[KEYDOWN K_UP], [KEYDOWN K_RETURN]]
     = Selected ''OBJ_files/B.OBJ'' \<and>
   ''B.OBJ'' \<in> set [''a.obj'', ''notes.txt'', ''B.OBJ''] \<and> endswith (lower ''B.OBJ'') ''.obj'' \<and>
   listdir \<lparr>path_exists = (\<lambda>p. True), listdir = (\<lambda>d. Inr [''notes.txt'']),
       wavefront = (\<lambda>p. Inl [])\<rparr> ''OBJ_files'' = Inr [''notes.txt''] \<and>
   obj_files_of [''notes.txt''] = [] \<and>
   obj_menu \<lparr>path_exists = (\<lambda>p. True), listdir = (\<lambda>d. Inr [''notes.txt'']),
       wavefront = (\<lambda>p. Inl [])\<rparr> ''OBJ_files'' [[KEYDOWN K_UP], [KEYDOWN K_RETURN]]
     = Menu_Raised (FileNotFoundError ''No OBJ files found in OBJ_files'')"
  using menu_selection_in_range [of "\<lparr>path_exists = (\<lambda>p. True),
       listdir = (\<lambda>d. Inr [''a.obj'', ''notes.txt'', ''B.OBJ'']), wavefront = (\<lambda>p. Inl [])\<rparr>"
       "''OBJ_files''" "[''a.obj'', ''notes.txt'', ''B.OBJ'']" "[[KEYDOWN K_UP], [KEYDOWN K_RETURN]]"]
    menu_selection_in_range [of "\<lparr>path_exists = (\<lambda>p. True),
       listdir = (\<lambda>d. Inr [''notes.txt'']), wavefront = (\<lambda>p. Inl [])\<rparr>"
       "''OBJ_files''" "[''notes.txt'']" "[[KEYDOWN K_UP], [KEYDOWN K_RETURN]]"]
  by (simp add: obj_files_example obj_menu_def menu_key_def py_index_def path_join_def
      lower_examples endswith_def)

end
